theory Spec2Isabelle
  imports Complex_Main
begin

section \<open>Conventions of the embedding\<close>

text \<open>
  The two scripts are \<^verbatim>\<open>examples/demo/scripts/cost-calculator.py\<close> and
  \<^verbatim>\<open>scripts/monitoring/build-analytics.py\<close>.  Python numbers are modelled by
  \<^typ>\<open>real\<close> (exact arithmetic, no rounding of the binary representation), node and
  run counts by \<^typ>\<open>int\<close> and \<^typ>\<open>nat\<close>.  What exact arithmetic would hide is
  written out: a division raises \<^verbatim>\<open>ZeroDivisionError\<close> on a zero divisor, adding a
  string to a number raises \<^verbatim>\<open>TypeError\<close>, and \<^verbatim>\<open>float('inf')\<close> is a value
  of its own.

  The code computes in double precision.  Where an exact value lies on a rounding tie or on
  the threshold of a comparison, the double the code holds may fall on either side of it, so
  the theorems about rounded and compared values are stated as bounds that hold on both
  sides, and the concrete values evaluated below are away from ties.
\<close>

datatype py_error = ZeroDivisionError | TypeError

text \<open>Python's \<^verbatim>\<open>a / b\<close> on numbers.\<close>

definition py_div :: "real \<Rightarrow> real \<Rightarrow> py_error + real" where
  "py_div a b = (if b = 0 then Inl ZeroDivisionError else Inr (a / b))"

text \<open>
  A value that is either a number or a string: the entries of the dictionary returned by
  \<^verbatim>\<open>calculate_gpu_instance_costs\<close> are of both kinds.
\<close>

datatype py_value = Num real | Str string

text \<open>\<^verbatim>\<open>v * n\<close> for an integer \<open>n\<close>: a number is multiplied, a string is repeated.\<close>

fun py_mul_int :: "py_value \<Rightarrow> int \<Rightarrow> py_value" where
  "py_mul_int (Num x) n = Num (x * of_int n)"
| "py_mul_int (Str s) n = Str (concat (replicate (nat n) s))"

text \<open>\<^verbatim>\<open>v + y\<close> for a float \<open>y\<close>: a string operand raises \<^verbatim>\<open>TypeError\<close>.\<close>

fun py_add_num :: "py_value \<Rightarrow> real \<Rightarrow> py_error + real" where
  "py_add_num (Num x) y = Inr (x + y)"
| "py_add_num (Str s) y = Inl TypeError"

text \<open>A float extended by \<^verbatim>\<open>float('inf')\<close>.\<close>

datatype py_float = Finite real | PosInf

text \<open>\<^verbatim>\<open>d.get(key, default)\<close> on a dictionary given as a map.\<close>

definition dict_get :: "('k \<rightharpoonup> 'v) \<Rightarrow> 'k \<Rightarrow> 'v \<Rightarrow> 'v" where
  "dict_get d k dflt = (case d k of None \<Rightarrow> dflt | Some v \<Rightarrow> v)"

section \<open>cost-calculator.py\<close>

subsection \<open>\<^verbatim>\<open>calculate_gpu_instance_costs\<close>\<close>

definition pricing_table :: "(string \<times> real) list" where
  "pricing_table =
    [(''g4dn.xlarge'', 0.526),
     (''g4dn.2xlarge'', 0.752),
     (''g4dn.4xlarge'', 1.204),
     (''g5.xlarge'', 1.006),
     (''g5.2xlarge'', 1.212),
     (''p3.2xlarge'', 3.06),
     (''p4d.24xlarge'', 32.77)]"

definition pricing :: "string \<rightharpoonup> real" where
  "pricing = map_of pricing_table"

text \<open>
  One round of the loop over \<^verbatim>\<open>instance_types\<close>: a priced type gets its cost, any
  other type gets the text \<^verbatim>\<open>f"Unknown pricing for {instance_type}"\<close>.
\<close>

definition cost_entry :: "real \<Rightarrow> (string \<rightharpoonup> py_value) \<Rightarrow> string \<Rightarrow> (string \<rightharpoonup> py_value)" where
  "cost_entry hours costs instance_type =
     (case pricing instance_type of
        Some price \<Rightarrow> costs(instance_type \<mapsto> Num (price * hours))
      | None \<Rightarrow> costs(instance_type \<mapsto> Str (''Unknown pricing for '' @ instance_type)))"

fun costs_loop :: "real \<Rightarrow> (string \<rightharpoonup> py_value) \<Rightarrow> string list \<Rightarrow> (string \<rightharpoonup> py_value)" where
  "costs_loop hours costs [] = costs"
| "costs_loop hours costs (t # ts) = costs_loop hours (cost_entry hours costs t) ts"

definition calculate_gpu_instance_costs :: "string list \<Rightarrow> real \<Rightarrow> (string \<rightharpoonup> py_value)" where
  "calculate_gpu_instance_costs instance_types hours = costs_loop hours Map.empty instance_types"

subsection \<open>\<^verbatim>\<open>calculate_utilization_improvement\<close>\<close>

record improvement_metrics =
  utilization_improvement_percent :: real
  cost_efficiency_multiplier :: real
  idle_time_reduction_percent :: real
  effective_cost_per_work_unit :: real

text \<open>
  The four divisions are taken in the order of the source; the first zero divisor raises.
\<close>

definition calculate_utilization_improvement ::
  "real \<Rightarrow> real \<Rightarrow> py_error + improvement_metrics" where
  "calculate_utilization_improvement baseline_util optimized_util =
     (case py_div (optimized_util - baseline_util) baseline_util of
        Inl e \<Rightarrow> Inl e
      | Inr q \<Rightarrow>
     (let improvement_percent = q * 100 in
      case py_div optimized_util baseline_util of
        Inl e \<Rightarrow> Inl e
      | Inr cost_efficiency \<Rightarrow>
     (case py_div (1 - optimized_util) (1 - baseline_util) of
        Inl e \<Rightarrow> Inl e
      | Inr idle_ratio \<Rightarrow>
     (let idle_time_reduction = (1 - idle_ratio) * 100 in
      case py_div 1 cost_efficiency of
        Inl e \<Rightarrow> Inl e
      | Inr per_unit \<Rightarrow>
          Inr \<lparr>utilization_improvement_percent = improvement_percent,
               cost_efficiency_multiplier = cost_efficiency,
               idle_time_reduction_percent = idle_time_reduction,
               effective_cost_per_work_unit = per_unit\<rparr>))))"

subsection \<open>\<^verbatim>\<open>generate_roi_analysis\<close>\<close>

record roi_report =
  current_utilization :: real
  improved_utilization :: real
  cost_reduction_percent :: real
  monthly_savings :: real
  annual_savings :: real
  agentaflow_monthly_cost :: real
  net_monthly_savings :: real
  payback_period_months :: py_float
  annual_roi_percent :: real

text \<open>
  The divisors \<^verbatim>\<open>current_efficiency\<close> (0.55), 100 and
  \<^verbatim>\<open>agentaflow_monthly_cost * 12\<close> (600) are non-zero constants, and the division by
  \<^verbatim>\<open>monthly_savings\<close> is behind the test \<^verbatim>\<open>monthly_savings > 0\<close>: the function
  cannot raise.
\<close>

definition generate_roi_analysis :: "real \<Rightarrow> real \<Rightarrow> roi_report" where
  "generate_roi_analysis monthly_gpu_spend utilization_improvement =
     (let current_efficiency = 0.55;
          improved_efficiency = current_efficiency * (1 + utilization_improvement / 100);
          cost_reduction = (improved_efficiency - current_efficiency) / current_efficiency * 100;
          savings = monthly_gpu_spend * (cost_reduction / 100);
          annual = savings * 12;
          monthly_cost = 50;
          net = savings - monthly_cost;
          roi_months = (if savings > 0 then Finite (monthly_cost / savings) else PosInf)
      in \<lparr>current_utilization = current_efficiency * 100,
          improved_utilization = improved_efficiency * 100,
          cost_reduction_percent = cost_reduction,
          monthly_savings = savings,
          annual_savings = annual,
          agentaflow_monthly_cost = monthly_cost,
          net_monthly_savings = net,
          payback_period_months = roi_months,
          annual_roi_percent =
            (if savings > 0 then (annual / (monthly_cost * 12)) * 100 else 0)\<rparr>)"

subsection \<open>\<^verbatim>\<open>generate_demo_report\<close>\<close>

text \<open>
  The configuration is a dictionary read with \<^verbatim>\<open>.get(key, default)\<close>: a field is
  \<open>None\<close> when its key is absent.
\<close>

record demo_config =
  duration_hours :: "real option"
  instance_type :: "string option"
  node_count :: "int option"
  baseline_utilization :: "real option"
  optimized_utilization :: "real option"
  monthly_gpu_spend :: "real option"

record cost_report =
  gpu_instances :: py_value
  eks_control_plane :: real
  monitoring_stack :: real
  networking :: real
  storage :: real
  total :: real

text \<open>
  The report, without its \<^verbatim>\<open>timestamp\<close> entry (the clock is not an input of the
  calculations).
\<close>

record demo_report =
  demo_info :: demo_config
  infrastructure_costs :: cost_report
  performance_improvements :: improvement_metrics
  roi_analysis :: roi_report

text \<open>The six reads of the configuration, each with the default of the source.\<close>

definition get_duration_hours :: "demo_config \<Rightarrow> real" where
  "get_duration_hours cfg = (case duration_hours cfg of None \<Rightarrow> 8 | Some h \<Rightarrow> h)"

definition get_instance_type :: "demo_config \<Rightarrow> string" where
  "get_instance_type cfg = (case instance_type cfg of None \<Rightarrow> ''g4dn.xlarge'' | Some t \<Rightarrow> t)"

definition get_node_count :: "demo_config \<Rightarrow> int" where
  "get_node_count cfg = (case node_count cfg of None \<Rightarrow> 2 | Some n \<Rightarrow> n)"

definition get_baseline_utilization :: "demo_config \<Rightarrow> real" where
  "get_baseline_utilization cfg = (case baseline_utilization cfg of None \<Rightarrow> 55 | Some b \<Rightarrow> b)"

definition get_optimized_utilization :: "demo_config \<Rightarrow> real" where
  "get_optimized_utilization cfg = (case optimized_utilization cfg of None \<Rightarrow> 85 | Some b \<Rightarrow> b)"

definition get_monthly_gpu_spend :: "demo_config \<Rightarrow> real" where
  "get_monthly_gpu_spend cfg = (case monthly_gpu_spend cfg of None \<Rightarrow> 10000 | Some m \<Rightarrow> m)"

text \<open>
  Lines 121 to 146, the infrastructure costs.  \<^verbatim>\<open>total_gpu_cost\<close> is the dictionary
  entry times the node count, so it is a string when the entry is one; the sum
  \<^verbatim>\<open>total_gpu_cost + eks_cost\<close> then raises \<^verbatim>\<open>TypeError\<close>, before the dictionary of
  costs is built.  The entry \<^verbatim>\<open>gpu_instances\<close> holds \<^verbatim>\<open>total_gpu_cost\<close> as it
  is.
\<close>

definition demo_infrastructure_costs :: "demo_config \<Rightarrow> py_error + cost_report" where
  "demo_infrastructure_costs cfg =
     (let gpu_hours = get_duration_hours cfg;
          itype = get_instance_type cfg;
          nodes = get_node_count cfg;
          instance_costs = calculate_gpu_instance_costs [itype] gpu_hours;
          total_gpu_cost = py_mul_int (dict_get instance_costs itype (Num 0)) nodes;
          eks_cost = 0.10 * gpu_hours;
          monitoring_cost = 5;
          networking_cost = 2;
          storage_cost = 3
      in case py_add_num total_gpu_cost eks_cost of
           Inl e \<Rightarrow> Inl e
         | Inr s \<Rightarrow>
             Inr \<lparr>gpu_instances = total_gpu_cost,
                  eks_control_plane = eks_cost,
                  monitoring_stack = monitoring_cost,
                  networking = networking_cost,
                  storage = storage_cost,
                  total = s + monitoring_cost + networking_cost + storage_cost\<rparr>)"

text \<open>
  The whole function: the costs first, then the improvement metrics of the two
  utilizations divided by 100, then the ROI analysis of their improvement percentage.  An
  exception of any step ends the function.
\<close>

definition generate_demo_report :: "demo_config \<Rightarrow> py_error + demo_report" where
  "generate_demo_report cfg =
     (case demo_infrastructure_costs cfg of
        Inl e \<Rightarrow> Inl e
      | Inr cost \<Rightarrow>
     (let baseline_util = get_baseline_utilization cfg;
          optimized_util = get_optimized_utilization cfg
      in case calculate_utilization_improvement (baseline_util / 100) (optimized_util / 100) of
           Inl e \<Rightarrow> Inl e
         | Inr improvement \<Rightarrow>
             Inr \<lparr>demo_info = cfg,
                  infrastructure_costs = cost,
                  performance_improvements = improvement,
                  roi_analysis =
                    generate_roi_analysis (get_monthly_gpu_spend cfg)
                      (utilization_improvement_percent improvement)\<rparr>))"

section \<open>build-analytics.py\<close>

text \<open>
  A workflow run, as far as the script reads it.  A timestamp is the instant it denotes, in
  seconds, and \<open>None\<close> when the field is null or empty (what the test
  \<^verbatim>\<open>run["created_at"] and run["updated_at"]\<close> rejects); the conclusion is a string, or
  \<open>None\<close> for a null.  The record has all three keys and its timestamps are parsed: a
  run without a key, or with a text that \<^verbatim>\<open>datetime.fromisoformat\<close> rejects, is not a
  value of this type.
\<close>

record build_run =
  created_at :: "real option"
  updated_at :: "real option"
  conclusion :: "string option"

text \<open>
  Python's \<^verbatim>\<open>round(x, ndigits)\<close>: to the nearest multiple of \<open>10\<^sup>-\<^sup>n\<close>, a tie to
  the even one.  The argument here is the exact value; the code rounds the double it has
  computed, which at an exact tie (23 of 160 is 14.375 percent) lies beside the tie and can
  go to the other neighbour (14.37 for 14.38).  Both neighbours are within half a unit of
  the last digit of the exact value.
\<close>

definition round_half_even :: "real \<Rightarrow> int" where
  "round_half_even x =
     (let f = \<lfloor>x\<rfloor>; r = x - of_int f
      in if r < 1 / 2 then f
         else if 1 / 2 < r then f + 1
         else if even f then f else f + 1)"

definition py_round :: "real \<Rightarrow> nat \<Rightarrow> real" where
  "py_round x ndigits = of_int (round_half_even (x * 10 ^ ndigits)) / 10 ^ ndigits"

subsection \<open>\<^verbatim>\<open>analyze_build_performance\<close>\<close>

record build_metrics =
  total_runs :: nat
  successful_runs :: nat
  failed_runs :: nat
  success_rate :: real
  avg_duration_minutes :: real
  min_duration_minutes :: real
  max_duration_minutes :: real
  failure_reasons :: "string option \<rightharpoonup> nat"

text \<open>The loop of lines 52 to 58, over the successful runs.\<close>

fun durations_loop :: "real list \<Rightarrow> build_run list \<Rightarrow> real list" where
  "durations_loop durations [] = durations"
| "durations_loop durations (run # rest) =
     (case created_at run of
        None \<Rightarrow> durations_loop durations rest
      | Some created \<Rightarrow>
     (case updated_at run of
        None \<Rightarrow> durations_loop durations rest
      | Some updated \<Rightarrow>
          durations_loop (durations @ [(updated - created) / 60]) rest))"

text \<open>The loop of lines 68 to 71: a \<^verbatim>\<open>defaultdict(int)\<close> counting conclusions.\<close>

fun failure_loop :: "(string option \<rightharpoonup> nat) \<Rightarrow> build_run list \<Rightarrow> (string option \<rightharpoonup> nat)" where
  "failure_loop reasons [] = reasons"
| "failure_loop reasons (run # rest) =
     failure_loop (reasons(conclusion run \<mapsto> dict_get reasons (conclusion run) 0 + 1)) rest"

text \<open>\<^verbatim>\<open>min\<close> and \<^verbatim>\<open>max\<close> of a list that is not empty.\<close>

definition py_min :: "real list \<Rightarrow> real" where
  "py_min xs = fold min (tl xs) (hd xs)"

definition py_max :: "real list \<Rightarrow> real" where
  "py_max xs = fold max (tl xs) (hd xs)"

text \<open>The two list comprehensions of lines 48 and 49.\<close>

definition successful_of :: "build_run list \<Rightarrow> build_run list" where
  "successful_of runs = filter (\<lambda>r. conclusion r = Some ''success'') runs"

definition failed_of :: "build_run list \<Rightarrow> build_run list" where
  "failed_of runs = filter (\<lambda>r. conclusion r = Some ''failure'') runs"

text \<open>The duration sample: the list \<^verbatim>\<open>durations\<close> after the loop.\<close>

definition success_durations :: "build_run list \<Rightarrow> real list" where
  "success_durations runs = durations_loop [] (successful_of runs)"

definition analyze_build_performance :: "build_run list \<Rightarrow> build_metrics" where
  "analyze_build_performance runs =
     (let total = length runs;
          successful = successful_of runs;
          failed = failed_of runs;
          durations = success_durations runs;
          avg_duration = (if durations \<noteq> [] then sum_list durations / real (length durations) else 0);
          min_duration = (if durations \<noteq> [] then py_min durations else 0);
          max_duration = (if durations \<noteq> [] then py_max durations else 0);
          rate = (if total > 0 then real (length successful) / real total * 100 else 0)
      in \<lparr>total_runs = total,
          successful_runs = length successful,
          failed_runs = length failed,
          success_rate = py_round rate 2,
          avg_duration_minutes = py_round avg_duration 2,
          min_duration_minutes = py_round min_duration 2,
          max_duration_minutes = py_round max_duration 2,
          failure_reasons = failure_loop Map.empty failed\<rparr>)"

subsection \<open>\<^verbatim>\<open>calculate_cache_efficiency\<close>\<close>

text \<open>
  The result has the keys \<^verbatim>\<open>fast_builds\<close> and \<^verbatim>\<open>total_builds\<close> only when there
  is a duration.  The field \<open>note_text\<close> is the key \<^verbatim>\<open>note\<close>.
\<close>

record cache_metrics =
  cache_hit_rate_estimate :: real
  fast_builds :: "nat option"
  total_builds :: "nat option"
  note_text :: string

text \<open>The loop of lines 87 to 93, over all runs.\<close>

fun cache_durations_loop :: "real list \<Rightarrow> build_run list \<Rightarrow> real list" where
  "cache_durations_loop durations [] = durations"
| "cache_durations_loop durations (run # rest) =
     (if conclusion run = Some ''success'' then
        (case created_at run of
           None \<Rightarrow> cache_durations_loop durations rest
         | Some created \<Rightarrow>
        (case updated_at run of
           None \<Rightarrow> cache_durations_loop durations rest
         | Some updated \<Rightarrow>
             cache_durations_loop (durations @ [(updated - created) / 60]) rest))
      else cache_durations_loop durations rest)"

text \<open>
  Lines 95 to 107, the estimate from the durations, over exact values.  A duration that
  equals 0.8 times the mean is not fast here; in the code the doubles of the duration and
  of the product \<^verbatim>\<open>avg_duration * 0.8\<close> decide it (runs of 144 and 216 seconds have one
  fast build in the code and none here).
\<close>

definition cache_estimate :: "real list \<Rightarrow> cache_metrics" where
  "cache_estimate durations =
     (if durations = [] then
        \<lparr>cache_hit_rate_estimate = 0, fast_builds = None, total_builds = None,
         note_text = ''No data available''\<rparr>
      else
        (let avg_duration = sum_list durations / real (length durations);
             fast = filter (\<lambda>d. d < avg_duration * 0.8) durations;
             cache_hit_rate =
               (if durations \<noteq> [] then real (length fast) / real (length durations) * 100
                else 0)
         in \<lparr>cache_hit_rate_estimate = py_round cache_hit_rate 2,
             fast_builds = Some (length fast),
             total_builds = Some (length durations),
             note_text = ''Estimated based on build duration variance''\<rparr>))"

definition calculate_cache_efficiency :: "build_run list \<Rightarrow> cache_metrics" where
  "calculate_cache_efficiency runs = cache_estimate (cache_durations_loop [] runs)"

subsection \<open>\<^verbatim>\<open>generate_recommendations\<close>\<close>

text \<open>
  The four texts the function can append; the first two carry the number printed in them.
\<close>

datatype recommendation =
    InvestigateFailures real
  | ConsiderOptimization real
  | ReviewCachingStrategy
  | AllMetricsAcceptable

text \<open>
  The function receives the metrics alone and takes its cache metrics from
  \<^verbatim>\<open>calculate_cache_efficiency([])\<close>.
\<close>

definition generate_recommendations :: "build_metrics \<Rightarrow> recommendation list" where
  "generate_recommendations metrics =
     (let recs0 = [];
          recs1 = (if success_rate metrics < 90
                   then recs0 @ [InvestigateFailures (success_rate metrics)] else recs0);
          recs2 = (if avg_duration_minutes metrics > 15
                   then recs1 @ [ConsiderOptimization (avg_duration_minutes metrics)] else recs1);
          cache = calculate_cache_efficiency [];
          recs3 = (if cache_hit_rate_estimate cache < 80
                   then recs2 @ [ReviewCachingStrategy] else recs2)
      in if recs3 = [] then recs3 @ [AllMetricsAcceptable] else recs3)"

section \<open>Example inputs\<close>

text \<open>The default configuration of \<^verbatim>\<open>main\<close>, and the same with a type that has no price.\<close>

definition default_config :: demo_config where
  "default_config =
     \<lparr>duration_hours = Some 8, instance_type = Some ''g4dn.xlarge'', node_count = Some 2,
      baseline_utilization = Some 55, optimized_utilization = Some 85,
      monthly_gpu_spend = Some 10000\<rparr>"


text \<open>Five hours of ten \<^verbatim>\<open>g5.xlarge\<close> nodes, and a configuration without any key.\<close>

definition large_config :: demo_config where
  "large_config =
     \<lparr>duration_hours = Some 5, instance_type = Some ''g5.xlarge'', node_count = Some 10,
      baseline_utilization = Some 40, optimized_utilization = Some 90,
      monthly_gpu_spend = Some 20000\<rparr>"

definition empty_config :: demo_config where
  "empty_config =
     \<lparr>duration_hours = None, instance_type = None, node_count = None,
      baseline_utilization = None, optimized_utilization = None, monthly_gpu_spend = None\<rparr>"

text \<open>
  Runs by conclusion and duration in minutes: a successful run that starts at 0 and takes
  the given minutes, a failed run, and a successful run whose second timestamp is missing.
\<close>

definition success_run :: "real \<Rightarrow> build_run" where
  "success_run minutes =
     \<lparr>created_at = Some 0, updated_at = Some (minutes * 60), conclusion = Some ''success''\<rparr>"

definition failure_run :: build_run where
  "failure_run = \<lparr>created_at = Some 0, updated_at = Some 60, conclusion = Some ''failure''\<rparr>"

definition unstamped_run :: build_run where
  "unstamped_run = \<lparr>created_at = Some 0, updated_at = None, conclusion = Some ''success''\<rparr>"

definition cancelled_run :: build_run where
  "cancelled_run = \<lparr>created_at = Some 0, updated_at = Some 60, conclusion = Some ''cancelled''\<rparr>"

text \<open>
  Successes of 2 and 5 minutes among a failure, a success without its second timestamp and
  a cancelled run; and a failure with a success without its second timestamp.
\<close>

definition mixed_runs :: "build_run list" where
  "mixed_runs = [success_run 2, failure_run, unstamped_run, cancelled_run, success_run 5]"

definition failed_only :: "build_run list" where
  "failed_only = [failure_run, unstamped_run]"

text \<open>One success in three runs.\<close>

definition one_of_three :: "build_run list" where
  "one_of_three = [success_run 1, failure_run, failure_run]"

text \<open>Nine builds of no measurable duration and one of 100 minutes, all successful.\<close>

definition cached_runs :: "build_run list" where
  "cached_runs =
     [success_run 0, success_run 0, success_run 0, success_run 0, success_run 0,
      success_run 0, success_run 0, success_run 0, success_run 0, success_run 100]"

text \<open>Nine builds of 10 minutes and one of 2 minutes.\<close>

definition nine_and_one :: "real list" where
  "nine_and_one = [10, 10, 10, 10, 10, 10, 10, 10, 10, 2]"

text \<open>39999 builds of no measurable duration and one of 1 minute.\<close>

definition almost_all_fast :: "real list" where
  "almost_all_fast = replicate 39999 0 @ [1]"

section \<open>The cache heuristic in the words of the specification\<close>

text \<open>
  The specification's reading of the estimator, to compare \<^const>\<open>cache_estimate\<close> with:
  the mean of the durations, and the durations that are strictly below 0.8 times the mean.
\<close>

definition spec_mean :: "real list \<Rightarrow> real" where
  "spec_mean ds = sum_list ds / real (length ds)"

definition spec_fast :: "real list \<Rightarrow> real list" where
  "spec_fast ds = filter (\<lambda>d. d < 0.8 * spec_mean ds) ds"

section \<open>Properties of cost-calculator.py\<close>

subsection \<open>The dictionary of instance costs\<close>

lemma cost_entry_same:
  "cost_entry hours m t t =
     Some (case pricing t of
             Some price \<Rightarrow> Num (price * hours)
           | None \<Rightarrow> Str (''Unknown pricing for '' @ t))"
  by (simp add: cost_entry_def split: option.splits)




lemma costs_single:
  "calculate_gpu_instance_costs [t] hours t = cost_entry hours Map.empty t t"
  by (simp add: calculate_gpu_instance_costs_def)

subsection \<open>The infrastructure costs\<close>

lemma demo_costs_known:
  assumes "pricing (get_instance_type cfg) = Some price"
  shows "demo_infrastructure_costs cfg =
     Inr \<lparr>gpu_instances = Num (price * get_duration_hours cfg * of_int (get_node_count cfg)),
          eks_control_plane = 0.10 * get_duration_hours cfg,
          monitoring_stack = 5, networking = 2, storage = 3,
          total = price * get_duration_hours cfg * of_int (get_node_count cfg)
                  + 0.10 * get_duration_hours cfg + 5 + 2 + 3\<rparr>"
  using assms
  by (simp add: demo_infrastructure_costs_def Let_def costs_single cost_entry_same dict_get_def)


lemma report_costs:
  "generate_demo_report cfg = Inr r \<Longrightarrow> demo_infrastructure_costs cfg = Inr (infrastructure_costs r)"
  by (auto simp: generate_demo_report_def Let_def split: sum.splits)

lemma improvement_returns:
  "(\<exists>r. calculate_utilization_improvement b opt = Inr r) = (b \<noteq> 0 \<and> b \<noteq> 1 \<and> opt \<noteq> 0)"
  by (auto simp add: calculate_utilization_improvement_def py_div_def Let_def)

lemma report_returns:
  assumes "demo_infrastructure_costs cfg = Inr c"
    and "get_baseline_utilization cfg \<noteq> 0" and "get_baseline_utilization cfg \<noteq> 100"
    and "get_optimized_utilization cfg \<noteq> 0"
  shows "\<exists>r. generate_demo_report cfg = Inr r \<and> infrastructure_costs r = c"
proof -
  have "\<exists>i. calculate_utilization_improvement (get_baseline_utilization cfg / 100)
           (get_optimized_utilization cfg / 100) = Inr i"
    using assms(2-4) by (simp add: improvement_returns)
  then obtain i where "calculate_utilization_improvement (get_baseline_utilization cfg / 100)
           (get_optimized_utilization cfg / 100) = Inr i" ..
  with assms(1) show ?thesis
    by (simp add: generate_demo_report_def Let_def)
qed





text \<open>
  C4.  For a configuration whose instance type has a price, the cost of the GPU instances is
  the price times the hours times the node count, each read from its key of the
  configuration (8 hours, \<^verbatim>\<open>g4dn.xlarge\<close> and 2 nodes where the key is absent), the
  control plane costs a tenth of the hours, monitoring, networking and storage cost 5, 2
  and 3, and the total is the sum of the five components.  The report, when the function
  returns one, holds these costs, and it returns one unless the utilization model divides
  by zero.
\<close>

theorem known_instance_type_costs:
  assumes "pricing t = Some price"
    and "t = (case instance_type cfg of None \<Rightarrow> ''g4dn.xlarge'' | Some x \<Rightarrow> x)"
    and "h = (case duration_hours cfg of None \<Rightarrow> 8 | Some x \<Rightarrow> x)"
    and "n = (case node_count cfg of None \<Rightarrow> 2 | Some x \<Rightarrow> x)"
    and "b = (case baseline_utilization cfg of None \<Rightarrow> 55 | Some x \<Rightarrow> x)"
    and "opt = (case optimized_utilization cfg of None \<Rightarrow> 85 | Some x \<Rightarrow> x)"
  shows "\<exists>c. demo_infrastructure_costs cfg = Inr c \<and>
           gpu_instances c = Num (price * h * of_int n) \<and>
           eks_control_plane c = 0.10 * h \<and>
           monitoring_stack c = 5 \<and> networking c = 2 \<and> storage c = 3 \<and>
           total c = price * h * of_int n + eks_control_plane c + monitoring_stack c
                     + networking c + storage c \<and>
           (\<forall>r. generate_demo_report cfg = Inr r \<longrightarrow> infrastructure_costs r = c) \<and>
           (b \<noteq> 0 \<and> b \<noteq> 100 \<and> opt \<noteq> 0 \<longrightarrow>
              (\<exists>r. generate_demo_report cfg = Inr r \<and> infrastructure_costs r = c))"
proof -
  have reads: "get_instance_type cfg = t" "get_duration_hours cfg = h" "get_node_count cfg = n"
    "get_baseline_utilization cfg = b" "get_optimized_utilization cfg = opt"
    using assms(2-6)
    by (simp_all add: get_instance_type_def get_duration_hours_def get_node_count_def
        get_baseline_utilization_def get_optimized_utilization_def)
  let ?c = "\<lparr>gpu_instances = Num (price * h * of_int n),
          eks_control_plane = 0.10 * h,
          monitoring_stack = 5, networking = 2, storage = 3,
          total = price * h * of_int n + 0.10 * h + 5 + 2 + 3\<rparr>"
  have c: "demo_infrastructure_costs cfg = Inr ?c"
    using demo_costs_known [of cfg price] assms(1) by (simp add: reads)
  have "\<forall>r. generate_demo_report cfg = Inr r \<longrightarrow> infrastructure_costs r = ?c"
    using report_costs [of cfg] c by auto
  moreover have "b \<noteq> 0 \<and> b \<noteq> 100 \<and> opt \<noteq> 0 \<longrightarrow>
      (\<exists>r. generate_demo_report cfg = Inr r \<and> infrastructure_costs r = ?c)"
    using report_returns [OF c] by (simp add: reads)
  ultimately show ?thesis using c by simp
qed

text \<open>
  Eight hours of two \<^verbatim>\<open>g4dn.xlarge\<close> nodes cost 8.416, with the keys present or absent;
  five hours of ten \<^verbatim>\<open>g5.xlarge\<close> nodes cost 50.3.
\<close>

theorem known_instance_type_costs_witness:
  "(\<exists>c. demo_infrastructure_costs default_config = Inr c \<and> gpu_instances c = Num 8.416 \<and>
       (\<exists>r. generate_demo_report default_config = Inr r \<and> infrastructure_costs r = c)) \<and>
   (\<exists>c. demo_infrastructure_costs large_config = Inr c \<and> gpu_instances c = Num 50.3 \<and>
       total c = 50.3 + 0.5 + 5 + 2 + 3 \<and>
       (\<exists>r. generate_demo_report large_config = Inr r \<and> infrastructure_costs r = c)) \<and>
   (\<exists>c. demo_infrastructure_costs empty_config = Inr c \<and> gpu_instances c = Num 8.416)"
proof -
  have p: "pricing ''g4dn.xlarge'' = Some 0.526" "pricing ''g5.xlarge'' = Some 1.006"
    by (simp_all add: pricing_def pricing_table_def)
  have d: "''g4dn.xlarge'' = (case instance_type default_config of None \<Rightarrow> ''g4dn.xlarge'' | Some x \<Rightarrow> x)"
    "8 = (case duration_hours default_config of None \<Rightarrow> 8 | Some x \<Rightarrow> x)"
    "2 = (case node_count default_config of None \<Rightarrow> 2 | Some x \<Rightarrow> x)"
    "55 = (case baseline_utilization default_config of None \<Rightarrow> 55 | Some x \<Rightarrow> x)"
    "85 = (case optimized_utilization default_config of None \<Rightarrow> 85 | Some x \<Rightarrow> x)"
    by (simp_all add: default_config_def)
  have l: "''g5.xlarge'' = (case instance_type large_config of None \<Rightarrow> ''g4dn.xlarge'' | Some x \<Rightarrow> x)"
    "5 = (case duration_hours large_config of None \<Rightarrow> 8 | Some x \<Rightarrow> x)"
    "10 = (case node_count large_config of None \<Rightarrow> 2 | Some x \<Rightarrow> x)"
    "40 = (case baseline_utilization large_config of None \<Rightarrow> 55 | Some x \<Rightarrow> x)"
    "90 = (case optimized_utilization large_config of None \<Rightarrow> 85 | Some x \<Rightarrow> x)"
    by (simp_all add: large_config_def)
  have e: "''g4dn.xlarge'' = (case instance_type empty_config of None \<Rightarrow> ''g4dn.xlarge'' | Some x \<Rightarrow> x)"
    "8 = (case duration_hours empty_config of None \<Rightarrow> 8 | Some x \<Rightarrow> x)"
    "2 = (case node_count empty_config of None \<Rightarrow> 2 | Some x \<Rightarrow> x)"
    "55 = (case baseline_utilization empty_config of None \<Rightarrow> 55 | Some x \<Rightarrow> x)"
    "85 = (case optimized_utilization empty_config of None \<Rightarrow> 85 | Some x \<Rightarrow> x)"
    by (simp_all add: empty_config_def)
  from known_instance_type_costs [OF p(1) d]
  obtain c1 where c1: "demo_infrastructure_costs default_config = Inr c1"
    "gpu_instances c1 = Num (0.526 * 8 * of_int 2)"
    "(55::real) \<noteq> 0 \<and> (55::real) \<noteq> 100 \<and> (85::real) \<noteq> 0 \<longrightarrow>
      (\<exists>r. generate_demo_report default_config = Inr r \<and> infrastructure_costs r = c1)"
    by blast
  from known_instance_type_costs [OF p(2) l]
  obtain c2 where c2: "demo_infrastructure_costs large_config = Inr c2"
    "gpu_instances c2 = Num (1.006 * 5 * of_int 10)"
    "eks_control_plane c2 = 0.10 * 5" "monitoring_stack c2 = 5" "networking c2 = 2"
    "storage c2 = 3"
    "total c2 = 1.006 * 5 * of_int 10 + eks_control_plane c2 + monitoring_stack c2
                     + networking c2 + storage c2"
    "(40::real) \<noteq> 0 \<and> (40::real) \<noteq> 100 \<and> (90::real) \<noteq> 0 \<longrightarrow>
      (\<exists>r. generate_demo_report large_config = Inr r \<and> infrastructure_costs r = c2)"
    by blast
  from known_instance_type_costs [OF p(1) e]
  obtain c3 where c3: "demo_infrastructure_costs empty_config = Inr c3"
    "gpu_instances c3 = Num (0.526 * 8 * of_int 2)"
    by blast
  have g1: "gpu_instances c1 = Num 8.416" using c1(2) by simp
  have r1: "\<exists>r. generate_demo_report default_config = Inr r \<and> infrastructure_costs r = c1"
    using c1(3) by simp
  have g2: "gpu_instances c2 = Num 50.3" using c2(2) by simp
  have t2: "total c2 = 50.3 + 0.5 + 5 + 2 + 3" using c2(3-7) by simp
  have r2: "\<exists>r. generate_demo_report large_config = Inr r \<and> infrastructure_costs r = c2"
    using c2(8) by simp
  have g3: "gpu_instances c3 = Num 8.416" using c3(2) by simp
  show ?thesis
    using c1(1) g1 r1 c2(1) g2 t2 r2 c3(1) g3 by blast
qed


subsection \<open>The utilization model\<close>

text \<open>
  C5.  For a baseline and an optimized utilization strictly between 0 and 1 the function
  returns its record, the multiplier is the quotient of the two, and the multiplier times
  the effective cost per work unit is 1.
\<close>

theorem efficiency_reciprocal:
  assumes "0 < b" "b < 1" "0 < opt" "opt < 1"
  shows "\<exists>r. calculate_utilization_improvement b opt = Inr r \<and>
           cost_efficiency_multiplier r = opt / b \<and>
           effective_cost_per_work_unit r = 1 / cost_efficiency_multiplier r \<and>
           cost_efficiency_multiplier r * effective_cost_per_work_unit r = 1"
  using assms by (simp add: calculate_utilization_improvement_def py_div_def Let_def)

theorem efficiency_reciprocal_witness:
  "\<exists>r. calculate_utilization_improvement 0.55 0.85 = Inr r \<and>
       cost_efficiency_multiplier r = 17 / 11 \<and>
       cost_efficiency_multiplier r * effective_cost_per_work_unit r = 1"
  using efficiency_reciprocal [of "0.55" "0.85"] by auto

text \<open>
  C6.  A baseline of 0 raises \<^verbatim>\<open>ZeroDivisionError\<close> at the first division, and a
  baseline of 1 raises it at the division by \<^verbatim>\<open>1 - baseline_util\<close> of the idle time
  formula, whatever the optimized utilization is: no record is returned in either case.
\<close>

theorem baseline_zero_or_one_raises:
  "calculate_utilization_improvement 0 opt = Inl ZeroDivisionError \<and>
   calculate_utilization_improvement 1 opt = Inl ZeroDivisionError"
  by (simp add: calculate_utilization_improvement_def py_div_def)

subsection \<open>The ROI analysis\<close>

lemma roi_payback_eq:
  "payback_period_months (generate_roi_analysis spend u) =
     (if 0 < monthly_savings (generate_roi_analysis spend u)
      then Finite (agentaflow_monthly_cost (generate_roi_analysis spend u)
                   / monthly_savings (generate_roi_analysis spend u))
      else PosInf)"
  unfolding generate_roi_analysis_def Let_def
  by (simp only: roi_report.select_convs)

lemma roi_annual_eq:
  "annual_roi_percent (generate_roi_analysis spend u) =
     (if 0 < monthly_savings (generate_roi_analysis spend u)
      then annual_savings (generate_roi_analysis spend u)
           / (agentaflow_monthly_cost (generate_roi_analysis spend u) * 12) * 100
      else 0)"
  unfolding generate_roi_analysis_def Let_def
  by (simp only: roi_report.select_convs)

lemma roi_cost: "agentaflow_monthly_cost (generate_roi_analysis spend u) = 50"
  by (simp add: generate_roi_analysis_def Let_def)

lemma roi_savings: "monthly_savings (generate_roi_analysis spend u) = spend * (u / 100)"
  by (simp add: generate_roi_analysis_def Let_def algebra_simps)

text \<open>
  C3.  The payback period is \<^verbatim>\<open>float('inf')\<close> exactly when the monthly savings are not
  positive, it is the monthly cost divided by the monthly savings when they are positive,
  and the annual ROI is 0 when they are not.  A monthly spend of 0 gives savings of 0, an
  infinite payback period and an annual ROI of 0.
\<close>

theorem roi_payback_infinite_iff:
  "((payback_period_months (generate_roi_analysis spend u) = PosInf) =
      (monthly_savings (generate_roi_analysis spend u) \<le> 0)) \<and>
   (0 < monthly_savings (generate_roi_analysis spend u) \<longrightarrow>
      payback_period_months (generate_roi_analysis spend u) =
        Finite (agentaflow_monthly_cost (generate_roi_analysis spend u)
                / monthly_savings (generate_roi_analysis spend u))) \<and>
   (monthly_savings (generate_roi_analysis spend u) \<le> 0 \<longrightarrow>
      annual_roi_percent (generate_roi_analysis spend u) = 0) \<and>
   monthly_savings (generate_roi_analysis 0 u) = 0 \<and>
   payback_period_months (generate_roi_analysis 0 u) = PosInf \<and>
   annual_roi_percent (generate_roi_analysis 0 u) = 0"
  by (simp add: roi_payback_eq roi_annual_eq roi_savings)

theorem roi_payback_infinite_iff_witness:
  "monthly_savings (generate_roi_analysis 10000 50) = 5000 \<and>
   payback_period_months (generate_roi_analysis 10000 50) = Finite (1 / 100) \<and>
   monthly_savings (generate_roi_analysis 10000 (- 50)) = - 5000 \<and>
   payback_period_months (generate_roi_analysis 10000 (- 50)) = PosInf \<and>
   annual_roi_percent (generate_roi_analysis 10000 (- 50)) = 0"
  using roi_payback_infinite_iff [of 10000 50] roi_payback_infinite_iff [of 10000 "- 50"]
  by (simp add: roi_savings roi_cost)

section \<open>Properties of build-analytics.py\<close>

subsection \<open>Rounding\<close>

lemma round_half_even_of_int: "round_half_even (of_int k) = k"
  by (simp add: round_half_even_def)

lemma py_round_zero: "py_round 0 n = 0"
  by (simp add: py_round_def round_half_even_def)

lemma py_round_of_int: "py_round (of_int k) n = of_int k"
  using round_half_even_of_int [of "k * 10 ^ n"]
  by (simp add: py_round_def)

lemma round_half_even_near: "\<bar>of_int (round_half_even x) - x\<bar> \<le> 1 / 2"
  unfolding round_half_even_def Let_def
  by (auto simp: abs_if; linarith)

lemma py_round_near: "\<bar>py_round x 2 - x\<bar> \<le> 0.005"
proof -
  have "\<bar>of_int (round_half_even (x * 100)) - x * 100\<bar> \<le> 1 / 2"
    by (rule round_half_even_near)
  then show ?thesis by (simp add: py_round_def abs_if field_simps split: if_splits)
qed

lemma py_round_two_decimals: "\<exists>k::int. py_round x 2 = of_int k / 100"
  by (simp add: py_round_def)

lemma round_half_even_le: "x \<le> of_int k \<Longrightarrow> round_half_even x \<le> k"
  unfolding round_half_even_def Let_def
  by (auto; linarith)

lemma py_round_le:
  assumes "x \<le> of_int k"
  shows "py_round x 2 \<le> of_int k"
proof -
  have "x * 100 \<le> of_int (k * 100)" using assms by simp
  then have "round_half_even (x * 100) \<le> k * 100" by (rule round_half_even_le)
  then have "real_of_int (round_half_even (x * 100)) \<le> real_of_int (k * 100)"
    by (simp only: of_int_le_iff)
  then show ?thesis by (simp add: py_round_def field_simps)
qed

subsection \<open>The duration sample\<close>

lemma durations_loop_eq:
  "durations_loop acc runs =
     acc @ map (\<lambda>r. (the (updated_at r) - the (created_at r)) / 60)
             (filter (\<lambda>r. created_at r \<noteq> None \<and> updated_at r \<noteq> None) runs)"
  by (induction runs arbitrary: acc) (auto split: option.splits)

lemma cache_durations_loop_eq:
  "cache_durations_loop acc runs =
     acc @ map (\<lambda>r. (the (updated_at r) - the (created_at r)) / 60)
             (filter (\<lambda>r. conclusion r = Some ''success'' \<and>
                          created_at r \<noteq> None \<and> updated_at r \<noteq> None) runs)"
  by (induction runs arbitrary: acc) (auto split: option.splits)

lemma success_durations_eq:
  "success_durations runs =
     map (\<lambda>r. (the (updated_at r) - the (created_at r)) / 60)
       (filter (\<lambda>r. conclusion r = Some ''success'' \<and>
                    created_at r \<noteq> None \<and> updated_at r \<noteq> None) runs)"
  by (simp add: success_durations_def successful_of_def durations_loop_eq
      conj_commute conj_left_commute)

text \<open>Both functions take their durations from the same runs.\<close>

lemma cache_durations_same: "cache_durations_loop [] runs = success_durations runs"
  by (simp add: success_durations_eq cache_durations_loop_eq)

lemma partition_le:
  "length (successful_of runs) + length (failed_of runs) \<le> length runs"
  unfolding successful_of_def failed_of_def
  by (induction runs) auto

subsection \<open>The aggregator\<close>

lemma py_min_eq: "ds \<noteq> [] \<Longrightarrow> py_min ds = Min (set ds)"
proof (cases ds)
  case Nil
  assume "ds \<noteq> []"
  with Nil show ?thesis by simp
next
  case (Cons a list)
  show ?thesis
    unfolding py_min_def Cons by (simp only: list.sel Min.set_eq_fold)
qed

lemma py_max_eq: "ds \<noteq> [] \<Longrightarrow> py_max ds = Max (set ds)"
proof (cases ds)
  case Nil
  assume "ds \<noteq> []"
  with Nil show ?thesis by simp
next
  case (Cons a list)
  show ?thesis
    unfolding py_max_def Cons by (simp only: list.sel Max.set_eq_fold)
qed

lemma analyze_counts:
  "total_runs (analyze_build_performance runs) = length runs"
  "successful_runs (analyze_build_performance runs) =
     length (filter (\<lambda>r. conclusion r = Some ''success'') runs)"
  "failed_runs (analyze_build_performance runs) =
     length (filter (\<lambda>r. conclusion r = Some ''failure'') runs)"
  by (simp_all add: analyze_build_performance_def Let_def successful_of_def failed_of_def)

lemma analyze_success_rate:
  "success_rate (analyze_build_performance runs) =
     py_round (if runs \<noteq> []
               then real (length (filter (\<lambda>r. conclusion r = Some ''success'') runs))
                    / real (length runs) * 100
               else 0) 2"
  by (simp add: analyze_build_performance_def Let_def successful_of_def)

lemma analyze_durations:
  "avg_duration_minutes (analyze_build_performance runs) =
     py_round (if success_durations runs \<noteq> []
               then sum_list (success_durations runs) / real (length (success_durations runs))
               else 0) 2"
  "min_duration_minutes (analyze_build_performance runs) =
     py_round (if success_durations runs \<noteq> [] then Min (set (success_durations runs)) else 0) 2"
  "max_duration_minutes (analyze_build_performance runs) =
     py_round (if success_durations runs \<noteq> [] then Max (set (success_durations runs)) else 0) 2"
  by (simp_all add: analyze_build_performance_def Let_def py_min_eq py_max_eq)

text \<open>
  C8.  The total counts every run, the successful runs are the runs that concluded in
  success and the failed runs those that concluded in failure, so the two together are at
  most the total and a run of another conclusion counts in the total alone.  The duration
  sample is the list of the durations of the runs that concluded in success and have both
  timestamps, in their order: a successful run without a timestamp counts in the totals
  and adds nothing to the sample.  The three durations the aggregator returns are those of
  this sample: 0 when it is empty, and otherwise within 0.005 (the rounding to two
  decimals) of its mean, its minimum and its maximum.
\<close>

theorem aggregate_counts_and_durations:
  fixes runs :: "build_run list"
  defines "m \<equiv> analyze_build_performance runs"
    and "ds \<equiv> map (\<lambda>r. (the (updated_at r) - the (created_at r)) / 60)
                 (filter (\<lambda>r. conclusion r = Some ''success'' \<and>
                              created_at r \<noteq> None \<and> updated_at r \<noteq> None) runs)"
  shows "total_runs m = length runs \<and>
         successful_runs m = length (filter (\<lambda>r. conclusion r = Some ''success'') runs) \<and>
         failed_runs m = length (filter (\<lambda>r. conclusion r = Some ''failure'') runs) \<and>
         successful_runs m + failed_runs m \<le> total_runs m \<and>
         success_durations runs = ds \<and>
         (ds = [] \<longrightarrow>
            avg_duration_minutes m = 0 \<and> min_duration_minutes m = 0 \<and>
            max_duration_minutes m = 0) \<and>
         (ds \<noteq> [] \<longrightarrow>
            \<bar>avg_duration_minutes m - sum_list ds / real (length ds)\<bar> \<le> 0.005 \<and>
            \<bar>min_duration_minutes m - Min (set ds)\<bar> \<le> 0.005 \<and>
            \<bar>max_duration_minutes m - Max (set ds)\<bar> \<le> 0.005)"
proof -
  have s: "success_durations runs = ds"
    unfolding ds_def by (rule success_durations_eq)
  have c: "total_runs m = length runs"
    "successful_runs m = length (filter (\<lambda>r. conclusion r = Some ''success'') runs)"
    "failed_runs m = length (filter (\<lambda>r. conclusion r = Some ''failure'') runs)"
    unfolding m_def by (rule analyze_counts)+
  have le: "successful_runs m + failed_runs m \<le> total_runs m"
    unfolding c using partition_le [of runs] by (simp add: successful_of_def failed_of_def)
  have z: "ds = [] \<longrightarrow>
            avg_duration_minutes m = 0 \<and> min_duration_minutes m = 0 \<and>
            max_duration_minutes m = 0"
    unfolding m_def analyze_durations s by (simp add: py_round_zero)
  have nz: "ds \<noteq> [] \<longrightarrow>
            \<bar>avg_duration_minutes m - sum_list ds / real (length ds)\<bar> \<le> 0.005 \<and>
            \<bar>min_duration_minutes m - Min (set ds)\<bar> \<le> 0.005 \<and>
            \<bar>max_duration_minutes m - Max (set ds)\<bar> \<le> 0.005"
  proof
    assume ne: "ds \<noteq> []"
    show "\<bar>avg_duration_minutes m - sum_list ds / real (length ds)\<bar> \<le> 0.005 \<and>
            \<bar>min_duration_minutes m - Min (set ds)\<bar> \<le> 0.005 \<and>
            \<bar>max_duration_minutes m - Max (set ds)\<bar> \<le> 0.005"
      unfolding m_def analyze_durations s
      using ne py_round_near [of "sum_list ds / real (length ds)"]
        py_round_near [of "Min (set ds)"] py_round_near [of "Max (set ds)"]
      by (simp only: if_True not_False_eq_True simp_thms)
  qed
  from s c le z nz show ?thesis by blast
qed

theorem aggregate_counts_and_durations_witness:
  "total_runs (analyze_build_performance mixed_runs) = 5 \<and>
   successful_runs (analyze_build_performance mixed_runs) = 3 \<and>
   failed_runs (analyze_build_performance mixed_runs) = 1 \<and>
   success_durations mixed_runs = [2, 5] \<and>
   \<bar>avg_duration_minutes (analyze_build_performance mixed_runs) - 7 / 2\<bar> \<le> 0.005 \<and>
   \<bar>min_duration_minutes (analyze_build_performance mixed_runs) - 2\<bar> \<le> 0.005 \<and>
   \<bar>max_duration_minutes (analyze_build_performance mixed_runs) - 5\<bar> \<le> 0.005 \<and>
   total_runs (analyze_build_performance failed_only) = 2 \<and>
   successful_runs (analyze_build_performance failed_only) = 1 \<and>
   success_durations failed_only = [] \<and>
   avg_duration_minutes (analyze_build_performance failed_only) = 0"
proof -
  have f: "map (\<lambda>r. (the (updated_at r) - the (created_at r)) / 60)
                 (filter (\<lambda>r. conclusion r = Some ''success'' \<and>
                              created_at r \<noteq> None \<and> updated_at r \<noteq> None) mixed_runs) = [2, 5]"
    "length mixed_runs = 5"
    "length (filter (\<lambda>r. conclusion r = Some ''success'') mixed_runs) = 3"
    "length (filter (\<lambda>r. conclusion r = Some ''failure'') mixed_runs) = 1"
    by (simp_all add: mixed_runs_def success_run_def failure_run_def unstamped_run_def
        cancelled_run_def)
  have g: "map (\<lambda>r. (the (updated_at r) - the (created_at r)) / 60)
                 (filter (\<lambda>r. conclusion r = Some ''success'' \<and>
                              created_at r \<noteq> None \<and> updated_at r \<noteq> None) failed_only) = []"
    "length failed_only = 2"
    "length (filter (\<lambda>r. conclusion r = Some ''success'') failed_only) = 1"
    by (simp_all add: failed_only_def failure_run_def unstamped_run_def)
  have a: "sum_list [2, 5 :: real] / real (length [2, 5 :: real]) = 7 / 2"
    "Min (set [2, 5 :: real]) = 2" "Max (set [2, 5 :: real]) = 5" "[2, 5 :: real] \<noteq> []"
    by simp_all
  from aggregate_counts_and_durations [of mixed_runs]
    aggregate_counts_and_durations [of failed_only]
  show ?thesis
    unfolding f g a using a(4) by simp
qed


lemma analyze_empty:
  "analyze_build_performance [] =
     \<lparr>total_runs = 0, successful_runs = 0, failed_runs = 0, success_rate = 0,
      avg_duration_minutes = 0, min_duration_minutes = 0, max_duration_minutes = 0,
      failure_reasons = Map.empty\<rparr>"
  by (simp add: analyze_build_performance_def Let_def py_round_zero successful_of_def
      failed_of_def success_durations_def)

lemma one_of_three_metrics:
  "total_runs (analyze_build_performance one_of_three) = 3"
  "successful_runs (analyze_build_performance one_of_three) = 1"
  "success_rate (analyze_build_performance one_of_three) = 33.33"
  by (simp_all add: analyze_build_performance_def Let_def one_of_three_def success_run_def
      failure_run_def successful_of_def failed_of_def py_round_def round_half_even_def)

text \<open>
  C7, as the code has it.  The total counts every run and the successful runs are the runs
  that concluded in success.  When there is a run, the success rate is the quotient of the
  two times 100 rounded to two decimals (\<^verbatim>\<open>round(success_rate, 2)\<close>): a multiple of 0.01
  within 0.005 of it.  No runs give zero counts, a zero rate, zero durations and an empty
  map of failure reasons.
\<close>

theorem aggregate_success_rate_rounded:
  "total_runs (analyze_build_performance runs) = length runs \<and>
   successful_runs (analyze_build_performance runs) =
     length (filter (\<lambda>r. conclusion r = Some ''success'') runs) \<and>
   (runs \<noteq> [] \<longrightarrow>
      (\<exists>k::int. success_rate (analyze_build_performance runs) = of_int k / 100) \<and>
      \<bar>success_rate (analyze_build_performance runs) -
        real (length (filter (\<lambda>r. conclusion r = Some ''success'') runs))
          / real (length runs) * 100\<bar> \<le> 0.005) \<and>
   analyze_build_performance [] =
     \<lparr>total_runs = 0, successful_runs = 0, failed_runs = 0, success_rate = 0,
      avg_duration_minutes = 0, min_duration_minutes = 0, max_duration_minutes = 0,
      failure_reasons = Map.empty\<rparr>"
proof -
  let ?q = "real (length (filter (\<lambda>r. conclusion r = Some ''success'') runs))
              / real (length runs) * 100"
  have "runs \<noteq> [] \<longrightarrow>
      (\<exists>k::int. success_rate (analyze_build_performance runs) = of_int k / 100) \<and>
      \<bar>success_rate (analyze_build_performance runs) - ?q\<bar> \<le> 0.005"
  proof
    assume "runs \<noteq> []"
    then have r: "success_rate (analyze_build_performance runs) = py_round ?q 2"
      by (simp add: analyze_success_rate)
    show "(\<exists>k::int. success_rate (analyze_build_performance runs) = of_int k / 100) \<and>
      \<bar>success_rate (analyze_build_performance runs) - ?q\<bar> \<le> 0.005"
      unfolding r using py_round_two_decimals [of ?q] py_round_near [of ?q] by blast
  qed
  then show ?thesis
    using analyze_counts(1,2) [of runs] analyze_empty by blast
qed

theorem aggregate_success_rate_rounded_witness:
  "one_of_three \<noteq> [] \<and>
   total_runs (analyze_build_performance one_of_three) = 3 \<and>
   successful_runs (analyze_build_performance one_of_three) = 1 \<and>
   \<bar>success_rate (analyze_build_performance one_of_three) - 1 / 3 * 100\<bar> \<le> 0.005"
proof -
  have n: "one_of_three \<noteq> []" "length one_of_three = 3"
    "length (filter (\<lambda>r. conclusion r = Some ''success'') one_of_three) = 1"
    by (simp_all add: one_of_three_def success_run_def failure_run_def)
  from aggregate_success_rate_rounded [of one_of_three] n(1)
  have "total_runs (analyze_build_performance one_of_three) = length one_of_three"
    "successful_runs (analyze_build_performance one_of_three) =
       length (filter (\<lambda>r. conclusion r = Some ''success'') one_of_three)"
    "\<bar>success_rate (analyze_build_performance one_of_three) -
        real (length (filter (\<lambda>r. conclusion r = Some ''success'') one_of_three))
          / real (length one_of_three) * 100\<bar> \<le> 0.005"
    by blast+
  then show ?thesis unfolding n(2,3) using n(1) by simp
qed

text \<open>
  C7 as stated fails where the quotient has more than two decimals: one success in three
  runs is reported as 33.33, which is not a third of 100.
\<close>

theorem success_rate_is_rounded_counterexample:
  "total_runs (analyze_build_performance one_of_three) = 3 \<and>
   successful_runs (analyze_build_performance one_of_three) = 1 \<and>
   success_rate (analyze_build_performance one_of_three) = 33.33 \<and>
   success_rate (analyze_build_performance one_of_three)
     \<noteq> real (successful_runs (analyze_build_performance one_of_three))
        / real (total_runs (analyze_build_performance one_of_three)) * 100"
  by (simp add: one_of_three_metrics)

subsection \<open>The cache estimate\<close>

lemma fast_filter_eq:
  "filter (\<lambda>d. d < sum_list ds / real (length ds) * 0.8) ds = spec_fast ds"
  unfolding spec_fast_def spec_mean_def
  by (rule filter_cong) (simp_all add: mult.commute)

lemma cache_estimate_nonempty:
  assumes "ds \<noteq> []"
  shows "cache_estimate ds =
     \<lparr>cache_hit_rate_estimate = py_round (real (length (spec_fast ds)) / real (length ds) * 100) 2,
      fast_builds = Some (length (spec_fast ds)),
      total_builds = Some (length ds),
      note_text = ''Estimated based on build duration variance''\<rparr>"
  unfolding cache_estimate_def Let_def fast_filter_eq
  using assms by (simp only: if_False if_True not_False_eq_True)

subsection \<open>Not every build is fast\<close>

lemma sum_list_less_bound:
  fixes c :: real
  assumes "ds \<noteq> []" and "\<forall>d\<in>set ds. d < c"
  shows "sum_list ds < real (length ds) * c"
  using assms
proof (induction ds)
  case Nil
  then show ?case by simp
next
  case (Cons d ds)
  show ?case
  proof (cases "ds = []")
    case True
    with Cons.prems show ?thesis by simp
  next
    case False
    with Cons have "sum_list ds < real (length ds) * c" by simp
    moreover from Cons.prems have "d < c" by simp
    ultimately show ?thesis by (simp add: algebra_simps)
  qed
qed

text \<open>
  Durations that are all below 0.8 times their mean would sum to less than 0.8 times their
  sum, which a sum that is not negative excludes.
\<close>

lemma not_all_fast:
  fixes ds :: "real list"
  assumes "ds \<noteq> []" and "\<forall>d\<in>set ds. 0 \<le> d"
  shows "\<exists>d\<in>set ds. \<not> d < 0.8 * spec_mean ds"
proof (rule ccontr)
  assume "\<not> ?thesis"
  then have "\<forall>d\<in>set ds. d < 0.8 * spec_mean ds" by blast
  from sum_list_less_bound [OF assms(1) this]
  have "sum_list ds < real (length ds) * (0.8 * spec_mean ds)" .
  moreover have "real (length ds) \<noteq> 0" using assms(1) by simp
  ultimately have "sum_list ds < 0.8 * sum_list ds" by (simp add: spec_mean_def)
  moreover have "0 \<le> sum_list ds" using assms(2) by (simp add: sum_list_nonneg)
  ultimately show False by simp
qed

lemma fast_less_total:
  fixes ds :: "real list"
  assumes "ds \<noteq> []" and "\<forall>d\<in>set ds. 0 \<le> d"
  shows "length (spec_fast ds) < length ds"
proof -
  from not_all_fast [OF assms]
  obtain d where "d \<in> set ds" "\<not> d < 0.8 * spec_mean ds" by blast
  then show ?thesis
    unfolding spec_fast_def by (rule length_filter_less)
qed

lemma ratio_below_100:
  assumes "f < n"
  shows "real f / real n * 100 < 100"
proof -
  have "real f < real n" "0 < real n" using assms by simp_all
  then have q: "real f / real n < 1" by simp
  have "x * 100 < 100" if "x < 1" for x :: real
    using that by simp
  from this [OF q] show ?thesis .
qed

text \<open>
  C10, as the code has it.  For durations that are not empty and not negative, the fast
  builds are fewer than the builds, so their share times 100 is below 100; the estimate is
  that share rounded to two decimals and is at most 100.
\<close>

theorem fast_builds_below_total:
  assumes "ds \<noteq> []" and "\<forall>d\<in>set ds. 0 \<le> d"
  shows "\<exists>f n. fast_builds (cache_estimate ds) = Some f \<and>
               total_builds (cache_estimate ds) = Some n \<and>
               f < n \<and>
               real f / real n * 100 < 100 \<and>
               cache_hit_rate_estimate (cache_estimate ds) = py_round (real f / real n * 100) 2 \<and>
               cache_hit_rate_estimate (cache_estimate ds) \<le> 100"
proof -
  let ?f = "length (spec_fast ds)"
  let ?n = "length ds"
  have lt: "?f < ?n" by (rule fast_less_total [OF assms])
  then have q: "real ?f / real ?n * 100 < 100" by (rule ratio_below_100)
  then have "py_round (real ?f / real ?n * 100) 2 \<le> of_int 100"
    by (intro py_round_le) simp
  then have r: "py_round (real ?f / real ?n * 100) 2 \<le> 100" by simp
  show ?thesis
    unfolding cache_estimate_nonempty [OF assms(1)] cache_metrics.select_convs
    using lt q r by blast
qed

theorem fast_builds_below_total_witness:
  "\<exists>f n. fast_builds (cache_estimate nine_and_one) = Some f \<and>
         total_builds (cache_estimate nine_and_one) = Some n \<and> f < n \<and>
         cache_hit_rate_estimate (cache_estimate nine_and_one) \<le> 100"
proof -
  have "nine_and_one \<noteq> []" "\<forall>d\<in>set nine_and_one. 0 \<le> d"
    by (simp_all add: nine_and_one_def)
  from fast_builds_below_total [OF this] show ?thesis by blast
qed

lemma zeros_and_one_fast: "spec_fast (replicate n 0 @ [1]) = replicate n 0"
proof -
  have m: "spec_mean (replicate n 0 @ [1]) = 1 / real (Suc n)"
    by (simp add: spec_mean_def sum_list_replicate)
  have pos: "0 < 0.8 * (1 / real (Suc n))" by simp
  have "real (Suc n) \<ge> 1" by simp
  then have "1 / real (Suc n) \<le> 1" by (simp del: of_nat_Suc)
  then have big: "\<not> (1 < 0.8 * (1 / real (Suc n)))" by linarith
  show ?thesis
    unfolding spec_fast_def m using pos big by (simp del: of_nat_Suc)
qed

lemma zeros_and_one_estimate:
  "cache_estimate (replicate n 0 @ [1]) =
     \<lparr>cache_hit_rate_estimate = py_round (real n / real (Suc n) * 100) 2,
      fast_builds = Some n, total_builds = Some (Suc n),
      note_text = ''Estimated based on build duration variance''\<rparr>"
proof -
  have ne: "replicate n (0::real) @ [1] \<noteq> []" by simp
  show ?thesis
    unfolding cache_estimate_nonempty [OF ne] zeros_and_one_fast by (simp del: of_nat_Suc)
qed

text \<open>
  C10 as stated fails in its last part: with 39999 fast builds in 40000 the share is
  99.9975, and the estimate, rounded to two decimals, is 100.
\<close>

theorem cache_rate_reaches_100_counterexample:
  "almost_all_fast \<noteq> [] \<and> list_all ((\<le>) 0) almost_all_fast \<and>
   fast_builds (cache_estimate almost_all_fast) = Some 39999 \<and>
   total_builds (cache_estimate almost_all_fast) = Some 40000 \<and>
   cache_hit_rate_estimate (cache_estimate almost_all_fast) = 100"
proof -
  have e: "cache_estimate almost_all_fast =
     \<lparr>cache_hit_rate_estimate = py_round (real 39999 / real (Suc 39999) * 100) 2,
      fast_builds = Some 39999, total_builds = Some (Suc 39999),
      note_text = ''Estimated based on build duration variance''\<rparr>"
    unfolding almost_all_fast_def by (rule zeros_and_one_estimate)
  have r: "py_round (real 39999 / real (Suc 39999) * 100) 2 = 100"
    by (simp add: py_round_def round_half_even_def Let_def)
  have a: "list_all ((\<le>) 0) almost_all_fast"
    unfolding almost_all_fast_def list_all_iff by (simp only: set_append set_replicate_conv_if) auto
  have n: "almost_all_fast \<noteq> []"
    unfolding almost_all_fast_def by (simp only: append_is_Nil_conv) simp
  have "cache_estimate almost_all_fast =
     \<lparr>cache_hit_rate_estimate = 100, fast_builds = Some 39999, total_builds = Some 40000,
      note_text = ''Estimated based on build duration variance''\<rparr>"
    unfolding e r by simp
  then show ?thesis using a n by simp
qed

subsection \<open>The recommendations\<close>

lemma cache_of_no_runs:
  "calculate_cache_efficiency [] =
     \<lparr>cache_hit_rate_estimate = 0, fast_builds = None, total_builds = None,
      note_text = ''No data available''\<rparr>"
  by (simp add: calculate_cache_efficiency_def cache_estimate_def)

text \<open>
  The estimate of no runs is 0, which is below 80: the third text is appended on every
  call, and the list is never empty when the last test is reached.
\<close>

lemma recommendations_eq:
  "generate_recommendations metrics =
     (if success_rate metrics < 90 then [InvestigateFailures (success_rate metrics)] else []) @
     (if avg_duration_minutes metrics > 15
      then [ConsiderOptimization (avg_duration_minutes metrics)] else []) @
     [ReviewCachingStrategy]"
  by (simp add: generate_recommendations_def cache_of_no_runs Let_def)

lemma cached_runs_durations:
  "success_durations cached_runs = [0, 0, 0, 0, 0, 0, 0, 0, 0, 100]"
  by (simp add: success_durations_eq cached_runs_def success_run_def)

lemma cached_runs_metrics:
  "success_rate (analyze_build_performance cached_runs) = 100"
  "avg_duration_minutes (analyze_build_performance cached_runs) = 10"
  using py_round_of_int [of 100 2] py_round_of_int [of 10 2]
  by (simp_all add: analyze_build_performance_def Let_def cached_runs_durations)
     (simp_all add: cached_runs_def success_run_def successful_of_def)

lemma cached_runs_cache:
  "cache_hit_rate_estimate (calculate_cache_efficiency cached_runs) = 90"
  using py_round_of_int [of 90 2]
  by (simp add: calculate_cache_efficiency_def cache_durations_same cached_runs_durations
      cache_estimate_def Let_def)

text \<open>
  C2, what the code does instead.  The caching advisory is in every result and the message
  that all metrics are acceptable is in none, whatever the metrics are.  For ten
  successful runs of which nine take no measurable time and one takes 100 minutes, the
  success rate is 100, the average duration is 10 minutes and the cache estimate of the
  runs is 90, so no threshold of the claim is crossed; the function still returns the
  caching advisory alone.
\<close>

theorem recommendations_ignore_cache_metrics:
  "ReviewCachingStrategy \<in> set (generate_recommendations metrics) \<and>
   AllMetricsAcceptable \<notin> set (generate_recommendations metrics) \<and>
   success_rate (analyze_build_performance cached_runs) = 100 \<and>
   avg_duration_minutes (analyze_build_performance cached_runs) = 10 \<and>
   cache_hit_rate_estimate (calculate_cache_efficiency cached_runs) = 90 \<and>
   generate_recommendations (analyze_build_performance cached_runs) = [ReviewCachingStrategy]"
  by (simp add: recommendations_eq cached_runs_metrics cached_runs_cache)

end
